theory Spec2Isabelle
  imports Main
begin

section \<open>Values shared by the store and its callers\<close>

text \<open>
  A Python \<^verbatim>\<open>datetime\<close>: the wall-clock reading in seconds and, for an aware value,
  the offset of its time zone from UTC in seconds. A \<^verbatim>\<open>TIMESTAMP\<close> column holds naive
  values only; asyncpg hands them back as naive datetimes.
\<close>

record datetime =
  wall :: int
  tzinfo :: "int option"

text \<open>A \<^verbatim>\<open>date\<close> (column type \<^verbatim>\<open>DATE\<close>) as its day number; only equality is used.\<close>

type_synonym date = int

text \<open>
  \<^verbatim>\<open>_normalize_dt\<close>: an aware datetime is converted to UTC and stripped of its zone,
  a naive one and \<^verbatim>\<open>None\<close> pass through.
\<close>

definition normalize_dt :: "datetime option \<Rightarrow> datetime option" where
  "normalize_dt dt =
     (case dt of
        None \<Rightarrow> None
      | Some d \<Rightarrow>
          (case tzinfo d of
             None \<Rightarrow> Some d
           | Some off \<Rightarrow> Some \<lparr>wall = wall d - off, tzinfo = None\<rparr>))"

section \<open>The tables of \<^verbatim>\<open>init_db\<close>\<close>

text \<open>
  One record per table, one field per column, in the order of the \<^verbatim>\<open>CREATE TABLE\<close>
  statements. A column without \<^verbatim>\<open>NOT NULL\<close> and without a default is an option; the
  columns with a default (\<^verbatim>\<open>INTEGER DEFAULT 0\<close>, \<^verbatim>\<open>BOOLEAN DEFAULT true\<close>,
  \<^verbatim>\<open>TIMESTAMP DEFAULT CURRENT_TIMESTAMP\<close>) are never written with \<^verbatim>\<open>NULL\<close> by any
  statement of the program and carry a plain value. The \<^verbatim>\<open>id\<close> columns are renamed
  because \<open>id\<close> is the identity function of HOL, and the columns that several tables
  share get the table as a suffix. \<^verbatim>\<open>INTEGER\<close> values are unbounded integers here.
\<close>

record Token =
  id_tok :: int
  st :: string
  at :: "string option"
  at_expires :: "datetime option"
  email :: string
  name :: "string option"
  remark :: "string option"
  is_active :: bool
  created_at :: datetime
  last_used_at :: "datetime option"
  use_count :: int
  credits :: int
  user_paygate_tier :: "string option"
  current_project_id :: "string option"
  current_project_name :: "string option"
  image_enabled :: bool
  video_enabled :: bool
  image_concurrency :: int
  video_concurrency :: int
  ban_reason :: "string option"
  banned_at :: "datetime option"

record Project =
  id_proj :: int
  project_id :: string
  token_id_proj :: int
  project_name :: string
  tool_name :: string
  is_active_proj :: bool
  created_at_proj :: datetime

record TokenStats =
  id_stats :: int
  token_id :: int
  image_count :: int
  video_count :: int
  success_count :: int
  error_count :: int
  last_success_at :: "datetime option"
  last_error_at :: "datetime option"
  today_image_count :: int
  today_video_count :: int
  today_error_count :: int
  today_date :: "date option"
  consecutive_error_count :: int

text \<open>
  Of \<^verbatim>\<open>tasks\<close> and \<^verbatim>\<open>request_logs\<close> only the key and the column that references
  \<^verbatim>\<open>tokens(id)\<close> are kept: no statement modelled below reads the other columns.
\<close>

record Task =
  task_id :: string
  token_id_task :: int

record RequestLog =
  id_log :: int
  token_id_log :: "int option"

text \<open>
  The store: the rows of each table in the order a sequential scan returns them, and
  the next value of the \<^verbatim>\<open>SERIAL\<close> sequences of \<^verbatim>\<open>tokens\<close> and \<^verbatim>\<open>token_stats\<close>.
\<close>

record database =
  tokens :: "Token list"
  projects :: "Project list"
  token_stats :: "TokenStats list"
  tasks :: "Task list"
  request_logs :: "RequestLog list"
  tokens_id_seq :: int
  token_stats_id_seq :: int

section \<open>Statements on \<^verbatim>\<open>token_stats\<close>\<close>

text \<open>
  \<^verbatim>\<open>fetchrow("SELECT ... FROM token_stats WHERE token_id = $1")\<close> yields the first
  matching row or \<^verbatim>\<open>None\<close>.
\<close>

definition fetchrow_stats :: "database \<Rightarrow> int \<Rightarrow> TokenStats option" where
  "fetchrow_stats db tid = find (\<lambda>r. token_id r = tid) (token_stats db)"

text \<open>\<^verbatim>\<open>UPDATE token_stats SET ... WHERE token_id = $n\<close> rewrites every matching row.\<close>

definition update_stats_where :: "int \<Rightarrow> (TokenStats \<Rightarrow> TokenStats) \<Rightarrow> database \<Rightarrow> database" where
  "update_stats_where tid f db =
     db\<lparr>token_stats := map (\<lambda>r. if token_id r = tid then f r else r) (token_stats db)\<rparr>"

text \<open>
  The condition of the three counters,
  \<^verbatim>\<open>row and row["today_date"] is not None and row["today_date"] != today\<close>.
\<close>

definition date_rolled_over :: "TokenStats option \<Rightarrow> date \<Rightarrow> bool" where
  "date_rolled_over row today =
     (case row of
        None \<Rightarrow> False
      | Some r \<Rightarrow> (case today_date r of None \<Rightarrow> False | Some d \<Rightarrow> d \<noteq> today))"

text \<open>
  \<^verbatim>\<open>increment_image_count\<close>; \<open>today\<close> is what \<^verbatim>\<open>date.today()\<close> returns on the
  server at the call.
\<close>

definition increment_image_count :: "date \<Rightarrow> int \<Rightarrow> database \<Rightarrow> database" where
  "increment_image_count today tid db =
     (let row = fetchrow_stats db tid in
      if date_rolled_over row today then
        update_stats_where tid
          (\<lambda>r. r\<lparr>image_count := image_count r + 1,
                 today_image_count := 1,
                 today_date := Some today\<rparr>) db
      else
        update_stats_where tid
          (\<lambda>r. r\<lparr>image_count := image_count r + 1,
                 today_image_count := today_image_count r + 1,
                 today_date := Some today\<rparr>) db)"

definition increment_video_count :: "date \<Rightarrow> int \<Rightarrow> database \<Rightarrow> database" where
  "increment_video_count today tid db =
     (let row = fetchrow_stats db tid in
      if date_rolled_over row today then
        update_stats_where tid
          (\<lambda>r. r\<lparr>video_count := video_count r + 1,
                 today_video_count := 1,
                 today_date := Some today\<rparr>) db
      else
        update_stats_where tid
          (\<lambda>r. r\<lparr>video_count := video_count r + 1,
                 today_video_count := today_video_count r + 1,
                 today_date := Some today\<rparr>) db)"

text \<open>
  \<^verbatim>\<open>increment_error_count\<close>; \<open>now\<close> is the server's \<^verbatim>\<open>CURRENT_TIMESTAMP\<close>.
\<close>

definition increment_error_count :: "date \<Rightarrow> datetime \<Rightarrow> int \<Rightarrow> database \<Rightarrow> database" where
  "increment_error_count today now tid db =
     (let row = fetchrow_stats db tid in
      if date_rolled_over row today then
        update_stats_where tid
          (\<lambda>r. r\<lparr>error_count := error_count r + 1,
                 consecutive_error_count := consecutive_error_count r + 1,
                 today_error_count := 1,
                 today_date := Some today,
                 last_error_at := Some now\<rparr>) db
      else
        update_stats_where tid
          (\<lambda>r. r\<lparr>error_count := error_count r + 1,
                 consecutive_error_count := consecutive_error_count r + 1,
                 today_error_count := today_error_count r + 1,
                 today_date := Some today,
                 last_error_at := Some now\<rparr>) db)"


text \<open>\<^verbatim>\<open>increment_token_stats\<close> dispatches on the kind; any other string does nothing.\<close>

definition increment_token_stats :: "date \<Rightarrow> datetime \<Rightarrow> int \<Rightarrow> string \<Rightarrow> database \<Rightarrow> database" where
  "increment_token_stats today now tid stat_type db =
     (if stat_type = ''image'' then increment_image_count today tid db
      else if stat_type = ''video'' then increment_video_count today tid db
      else if stat_type = ''error'' then increment_error_count today now tid db
      else db)"

section \<open>Failures\<close>

text \<open>
  What a statement can raise: the violations PostgreSQL reports for the constraints of
  \<^verbatim>\<open>init_db\<close>, the errors of a statement that names an unknown column or binds an
  argument of the wrong type, and the faults of the environment (a lost connection,
  the cancellation of the calling task at an \<^verbatim>\<open>await\<close>).
\<close>

datatype exn =
    UniqueViolationError
  | ForeignKeyViolationError
  | UndefinedColumnError
  | DataError
  | InterfaceError
  | CancelledError

text \<open>
  None of the methods opens a transaction, so every statement commits on its own, and a
  method that raises at its \<open>n\<close>-th statement keeps what the statements before it
  wrote. A method that issues several writing statements therefore returns the store
  together with its result, and takes the faults of the environment as a schedule:
  \<open>flt n\<close> is the exception, if any, that the environment raises when the method
  awaits its \<open>n\<close>-th statement.
\<close>

type_synonym faults = "nat \<Rightarrow> exn option"

definition no_faults :: faults where
  "no_faults = (\<lambda>n. None)"

section \<open>Statements on \<^verbatim>\<open>tokens\<close>\<close>

text \<open>
  \<^verbatim>\<open>INSERT INTO tokens (st, at, ..., video_concurrency) VALUES (...) RETURNING id\<close>.
  The id is the next value of the sequence, which stays consumed when the insert
  fails; \<^verbatim>\<open>created_at\<close> takes \<^verbatim>\<open>CURRENT_TIMESTAMP\<close> (\<open>now\<close>), \<^verbatim>\<open>use_count\<close> its
  default 0, the other columns left out are \<^verbatim>\<open>NULL\<close>. The insert fails on the primary
  key and on \<^verbatim>\<open>st TEXT UNIQUE\<close>.
\<close>

definition insert_token :: "datetime \<Rightarrow> Token \<Rightarrow> database \<Rightarrow> (exn + int) \<times> database" where
  "insert_token now token db =
     (let new_id = tokens_id_seq db;
          db1 = db\<lparr>tokens_id_seq := new_id + 1\<rparr>;
          row = \<lparr>id_tok = new_id,
                 st = st token,
                 at = at token,
                 at_expires = normalize_dt (at_expires token),
                 email = email token,
                 name = name token,
                 remark = remark token,
                 is_active = is_active token,
                 created_at = now,
                 last_used_at = None,
                 use_count = 0,
                 credits = credits token,
                 user_paygate_tier = user_paygate_tier token,
                 current_project_id = current_project_id token,
                 current_project_name = current_project_name token,
                 image_enabled = image_enabled token,
                 video_enabled = video_enabled token,
                 image_concurrency = image_concurrency token,
                 video_concurrency = video_concurrency token,
                 ban_reason = None,
                 banned_at = None\<rparr>
      in if new_id \<in> set (map id_tok (tokens db)) \<or> st token \<in> set (map st (tokens db))
         then (Inl UniqueViolationError, db1)
         else (Inr new_id, db1\<lparr>tokens := tokens db @ [row]\<rparr>))"

text \<open>
  \<^verbatim>\<open>INSERT INTO token_stats (token_id) VALUES ($1)\<close>: every counter takes its default 0,
  the timestamps and \<^verbatim>\<open>today_date\<close> are \<^verbatim>\<open>NULL\<close>. The insert fails on the primary key
  and on the reference to \<^verbatim>\<open>tokens(id)\<close>.
\<close>

definition insert_token_stats :: "int \<Rightarrow> database \<Rightarrow> exn option \<times> database" where
  "insert_token_stats tid db =
     (let new_id = token_stats_id_seq db;
          db1 = db\<lparr>token_stats_id_seq := new_id + 1\<rparr>;
          row = \<lparr>id_stats = new_id,
                 token_id = tid,
                 image_count = 0,
                 video_count = 0,
                 success_count = 0,
                 error_count = 0,
                 last_success_at = None,
                 last_error_at = None,
                 today_image_count = 0,
                 today_video_count = 0,
                 today_error_count = 0,
                 today_date = None,
                 consecutive_error_count = 0\<rparr>
      in if new_id \<in> set (map id_stats (token_stats db)) then (Some UniqueViolationError, db1)
         else if tid \<notin> set (map id_tok (tokens db)) then (Some ForeignKeyViolationError, db1)
         else (None, db1\<lparr>token_stats := token_stats db @ [row]\<rparr>))"

text \<open>
  \<^verbatim>\<open>add_token\<close>: the two inserts, one after the other on the same connection. Statement
  0 is the insert into \<^verbatim>\<open>tokens\<close>, statement 1 the insert into \<^verbatim>\<open>token_stats\<close>.
\<close>

definition add_token :: "faults \<Rightarrow> datetime \<Rightarrow> Token \<Rightarrow> database \<Rightarrow> (exn + int) \<times> database" where
  "add_token flt now token db =
     (case flt 0 of
        Some e \<Rightarrow> (Inl e, db)
      | None \<Rightarrow>
          (case insert_token now token db of
             (Inl e, db1) \<Rightarrow> (Inl e, db1)
           | (Inr new_id, db1) \<Rightarrow>
               (case flt 1 of
                  Some e \<Rightarrow> (Inl e, db1)
                | None \<Rightarrow>
                    (case insert_token_stats new_id db1 of
                       (Some e, db2) \<Rightarrow> (Inl e, db2)
                     | (None, db2) \<Rightarrow> (Inr new_id, db2)))))"

subsection \<open>Reading\<close>

definition get_token :: "database \<Rightarrow> int \<Rightarrow> Token option" where
  "get_token db tid = find (\<lambda>t. id_tok t = tid) (tokens db)"

definition get_token_by_st :: "database \<Rightarrow> string \<Rightarrow> Token option" where
  "get_token_by_st db s = find (\<lambda>t. st t = s) (tokens db)"

text \<open>
  \<^verbatim>\<open>ORDER BY last_used_at ASC\<close> as PostgreSQL evaluates it: ascending order sorts
  \<^verbatim>\<open>NULL\<close> as larger than every value (\<^verbatim>\<open>NULLS LAST\<close> is the default of \<^verbatim>\<open>ASC\<close>), and
  the query does not say \<^verbatim>\<open>NULLS FIRST\<close>. The stored timestamps are naive and compare
  by their reading.
\<close>

fun last_used_le :: "datetime option \<Rightarrow> datetime option \<Rightarrow> bool" where
  "last_used_le _ None = True"
| "last_used_le None (Some b) = False"
| "last_used_le (Some a) (Some b) = (wall a \<le> wall b)"

fun insert_by_last_used :: "Token \<Rightarrow> Token list \<Rightarrow> Token list" where
  "insert_by_last_used t [] = [t]"
| "insert_by_last_used t (u # us) =
     (if last_used_le (last_used_at t) (last_used_at u) then t # u # us
      else u # insert_by_last_used t us)"

text \<open>
  The order among rows with equal keys is the engine's choice; the sort below keeps
  them in table order.
\<close>

definition order_by_last_used_at_asc :: "Token list \<Rightarrow> Token list" where
  "order_by_last_used_at_asc ts = foldr insert_by_last_used ts []"

text \<open>
  \<^verbatim>\<open>get_active_tokens\<close>:
  \<^verbatim>\<open>SELECT * FROM tokens WHERE is_active = true ORDER BY last_used_at ASC\<close>.
\<close>

definition get_active_tokens :: "database \<Rightarrow> Token list" where
  "get_active_tokens db = order_by_last_used_at_asc (filter is_active (tokens db))"

subsection \<open>Deleting\<close>

text \<open>
  The rows that reference a token: \<^verbatim>\<open>token_stats\<close>, \<^verbatim>\<open>projects\<close>, \<^verbatim>\<open>tasks\<close> and
  \<^verbatim>\<open>request_logs\<close> all declare \<^verbatim>\<open>REFERENCES tokens(id)\<close> without an \<^verbatim>\<open>ON DELETE\<close>
  action, so deleting a referenced token is refused.
\<close>

definition referenced :: "database \<Rightarrow> int \<Rightarrow> bool" where
  "referenced db tid \<longleftrightarrow>
     tid \<in> set (map token_id (token_stats db)) \<or>
     tid \<in> set (map token_id_proj (projects db)) \<or>
     tid \<in> set (map token_id_task (tasks db)) \<or>
     Some tid \<in> set (map token_id_log (request_logs db))"

text \<open>
  \<^verbatim>\<open>delete_token\<close>: three statements, 0 on \<^verbatim>\<open>token_stats\<close>, 1 on \<^verbatim>\<open>projects\<close>, 2 on
  \<^verbatim>\<open>tokens\<close>. The result is the exception raised, if any.
\<close>

definition delete_token :: "faults \<Rightarrow> int \<Rightarrow> database \<Rightarrow> exn option \<times> database" where
  "delete_token flt tid db =
     (case flt 0 of
        Some e \<Rightarrow> (Some e, db)
      | None \<Rightarrow>
          (let db1 = db\<lparr>token_stats := filter (\<lambda>r. token_id r \<noteq> tid) (token_stats db)\<rparr> in
           case flt 1 of
             Some e \<Rightarrow> (Some e, db1)
           | None \<Rightarrow>
               (let db2 = db1\<lparr>projects := filter (\<lambda>p. token_id_proj p \<noteq> tid) (projects db1)\<rparr> in
                case flt 2 of
                  Some e \<Rightarrow> (Some e, db2)
                | None \<Rightarrow>
                    if tid \<in> set (map id_tok (tokens db2)) \<and> referenced db2 tid
                    then (Some ForeignKeyViolationError, db2)
                    else (None, db2\<lparr>tokens := filter (\<lambda>t. id_tok t \<noteq> tid) (tokens db2)\<rparr>))))"

subsection \<open>Updating\<close>

text \<open>
  The values a caller passes in \<^verbatim>\<open>**kwargs\<close>: \<^verbatim>\<open>None\<close>, \<^verbatim>\<open>bool\<close>, \<^verbatim>\<open>int\<close>, \<^verbatim>\<open>str\<close>
  and \<^verbatim>\<open>datetime\<close>. (A \<^verbatim>\<open>float\<close>, which the method would accept as a POSIX timestamp
  under a key ending in \<^verbatim>\<open>_at\<close>, is not represented.) The keyword arguments are the
  list of their items, in the order of the call.
\<close>

datatype pyval = PyNone | PyBool bool | PyInt int | PyStr string | PyDatetime datetime

type_synonym kwargs = "(string \<times> pyval) list"

text \<open>
  \<^verbatim>\<open>datetime.fromtimestamp(value)\<close>: the naive local time of a POSIX timestamp, on a
  server whose zone is \<open>tz\<close> seconds east of UTC.
\<close>

definition fromtimestamp :: "int \<Rightarrow> int \<Rightarrow> datetime" where
  "fromtimestamp tz v = \<lparr>wall = v + tz, tzinfo = None\<rparr>"

text \<open>\<^verbatim>\<open>key.endswith(suffix)\<close>.\<close>

definition endswith :: "string \<Rightarrow> string \<Rightarrow> bool" where
  "endswith key suffix \<longleftrightarrow>
     length suffix \<le> length key \<and> drop (length key - length suffix) key = suffix"

text \<open>
  The two conversions in the loop of \<^verbatim>\<open>update_token\<close>. \<^verbatim>\<open>isinstance(value, (int, float))\<close>
  holds of a \<^verbatim>\<open>bool\<close> as well, since \<^verbatim>\<open>bool\<close> is a subclass of \<^verbatim>\<open>int\<close>.
\<close>

definition timestamp_to_datetime :: "int \<Rightarrow> string \<Rightarrow> pyval \<Rightarrow> pyval" where
  "timestamp_to_datetime tz key v =
     (case v of
        PyInt n \<Rightarrow> if endswith key ''_at'' then PyDatetime (fromtimestamp tz n) else v
      | PyBool b \<Rightarrow>
          if endswith key ''_at'' then PyDatetime (fromtimestamp tz (if b then 1 else 0)) else v
      | _ \<Rightarrow> v)"

definition normalize_value :: "pyval \<Rightarrow> pyval" where
  "normalize_value v =
     (case v of
        PyDatetime d \<Rightarrow>
          (case normalize_dt (Some d) of Some d' \<Rightarrow> PyDatetime d' | None \<Rightarrow> v)
      | _ \<Rightarrow> v)"

text \<open>
  The loop over \<^verbatim>\<open>kwargs.items()\<close>: an item whose value is \<^verbatim>\<open>None\<close> is skipped, the
  others give one assignment \<^verbatim>\<open>key = $idx\<close> and one parameter each. The result pairs
  each assigned key with its parameter.
\<close>

fun update_items :: "int \<Rightarrow> kwargs \<Rightarrow> kwargs" where
  "update_items tz [] = []"
| "update_items tz ((key, v) # items) =
     (if v \<noteq> PyNone
      then (key, normalize_value (timestamp_to_datetime tz key v)) # update_items tz items
      else update_items tz items)"

text \<open>The columns of \<^verbatim>\<open>tokens\<close> and their names.\<close>

datatype column =
    C_id
  | C_st
  | C_at
  | C_at_expires
  | C_email
  | C_name
  | C_remark
  | C_is_active
  | C_created_at
  | C_last_used_at
  | C_use_count
  | C_credits
  | C_user_paygate_tier
  | C_current_project_id
  | C_current_project_name
  | C_image_enabled
  | C_video_enabled
  | C_image_concurrency
  | C_video_concurrency
  | C_ban_reason
  | C_banned_at

definition tokens_columns :: "(string \<times> column) list" where
  "tokens_columns =
     [(''id'', C_id),
      (''st'', C_st),
      (''at'', C_at),
      (''at_expires'', C_at_expires),
      (''email'', C_email),
      (''name'', C_name),
      (''remark'', C_remark),
      (''is_active'', C_is_active),
      (''created_at'', C_created_at),
      (''last_used_at'', C_last_used_at),
      (''use_count'', C_use_count),
      (''credits'', C_credits),
      (''user_paygate_tier'', C_user_paygate_tier),
      (''current_project_id'', C_current_project_id),
      (''current_project_name'', C_current_project_name),
      (''image_enabled'', C_image_enabled),
      (''video_enabled'', C_video_enabled),
      (''image_concurrency'', C_image_concurrency),
      (''video_concurrency'', C_video_concurrency),
      (''ban_reason'', C_ban_reason),
      (''banned_at'', C_banned_at)]"

definition column_named :: "string \<Rightarrow> column option" where
  "column_named key = map_of tokens_columns key"

datatype sqltype = SqlInteger | SqlText | SqlBoolean | SqlTimestamp

fun column_type :: "column \<Rightarrow> sqltype" where
  "column_type C_id = SqlInteger"
| "column_type C_st = SqlText"
| "column_type C_at = SqlText"
| "column_type C_at_expires = SqlTimestamp"
| "column_type C_email = SqlText"
| "column_type C_name = SqlText"
| "column_type C_remark = SqlText"
| "column_type C_is_active = SqlBoolean"
| "column_type C_created_at = SqlTimestamp"
| "column_type C_last_used_at = SqlTimestamp"
| "column_type C_use_count = SqlInteger"
| "column_type C_credits = SqlInteger"
| "column_type C_user_paygate_tier = SqlText"
| "column_type C_current_project_id = SqlText"
| "column_type C_current_project_name = SqlText"
| "column_type C_image_enabled = SqlBoolean"
| "column_type C_video_enabled = SqlBoolean"
| "column_type C_image_concurrency = SqlInteger"
| "column_type C_video_concurrency = SqlInteger"
| "column_type C_ban_reason = SqlText"
| "column_type C_banned_at = SqlTimestamp"

text \<open>
  The argument as asyncpg encodes it for a parameter of the column's type: an integer
  column takes an \<^verbatim>\<open>int\<close> (and a \<^verbatim>\<open>bool\<close>, as the integer it is), a text column a
  \<^verbatim>\<open>str\<close>, a boolean column a \<^verbatim>\<open>bool\<close>, a timestamp column a \<^verbatim>\<open>datetime\<close>; anything
  else is refused. \<^verbatim>\<open>None\<close> never gets here: the loop has dropped it.
\<close>

datatype sqlval = SqlInt int | SqlStr string | SqlBool bool | SqlTs datetime

fun encode :: "sqltype \<Rightarrow> pyval \<Rightarrow> sqlval option" where
  "encode SqlInteger (PyInt n) = Some (SqlInt n)"
| "encode SqlInteger (PyBool b) = Some (SqlInt (if b then 1 else 0))"
| "encode SqlText (PyStr s) = Some (SqlStr s)"
| "encode SqlBoolean (PyBool b) = Some (SqlBool b)"
| "encode SqlTimestamp (PyDatetime d) = Some (SqlTs d)"
| "encode _ _ = None"


fun set_column :: "column \<Rightarrow> sqlval \<Rightarrow> Token \<Rightarrow> Token" where
  "set_column C_id v t = (case v of SqlInt n \<Rightarrow> t\<lparr>id_tok := n\<rparr> | _ \<Rightarrow> t)"
| "set_column C_st v t = (case v of SqlStr s \<Rightarrow> t\<lparr>st := s\<rparr> | _ \<Rightarrow> t)"
| "set_column C_at v t = (case v of SqlStr s \<Rightarrow> t\<lparr>at := Some s\<rparr> | _ \<Rightarrow> t)"
| "set_column C_at_expires v t = (case v of SqlTs d \<Rightarrow> t\<lparr>at_expires := Some d\<rparr> | _ \<Rightarrow> t)"
| "set_column C_email v t = (case v of SqlStr s \<Rightarrow> t\<lparr>email := s\<rparr> | _ \<Rightarrow> t)"
| "set_column C_name v t = (case v of SqlStr s \<Rightarrow> t\<lparr>name := Some s\<rparr> | _ \<Rightarrow> t)"
| "set_column C_remark v t = (case v of SqlStr s \<Rightarrow> t\<lparr>remark := Some s\<rparr> | _ \<Rightarrow> t)"
| "set_column C_is_active v t = (case v of SqlBool b \<Rightarrow> t\<lparr>is_active := b\<rparr> | _ \<Rightarrow> t)"
| "set_column C_created_at v t = (case v of SqlTs d \<Rightarrow> t\<lparr>created_at := d\<rparr> | _ \<Rightarrow> t)"
| "set_column C_last_used_at v t = (case v of SqlTs d \<Rightarrow> t\<lparr>last_used_at := Some d\<rparr> | _ \<Rightarrow> t)"
| "set_column C_use_count v t = (case v of SqlInt n \<Rightarrow> t\<lparr>use_count := n\<rparr> | _ \<Rightarrow> t)"
| "set_column C_credits v t = (case v of SqlInt n \<Rightarrow> t\<lparr>credits := n\<rparr> | _ \<Rightarrow> t)"
| "set_column C_user_paygate_tier v t = (case v of SqlStr s \<Rightarrow> t\<lparr>user_paygate_tier := Some s\<rparr> | _ \<Rightarrow> t)"
| "set_column C_current_project_id v t = (case v of SqlStr s \<Rightarrow> t\<lparr>current_project_id := Some s\<rparr> | _ \<Rightarrow> t)"
| "set_column C_current_project_name v t = (case v of SqlStr s \<Rightarrow> t\<lparr>current_project_name := Some s\<rparr> | _ \<Rightarrow> t)"
| "set_column C_image_enabled v t = (case v of SqlBool b \<Rightarrow> t\<lparr>image_enabled := b\<rparr> | _ \<Rightarrow> t)"
| "set_column C_video_enabled v t = (case v of SqlBool b \<Rightarrow> t\<lparr>video_enabled := b\<rparr> | _ \<Rightarrow> t)"
| "set_column C_image_concurrency v t = (case v of SqlInt n \<Rightarrow> t\<lparr>image_concurrency := n\<rparr> | _ \<Rightarrow> t)"
| "set_column C_video_concurrency v t = (case v of SqlInt n \<Rightarrow> t\<lparr>video_concurrency := n\<rparr> | _ \<Rightarrow> t)"
| "set_column C_ban_reason v t = (case v of SqlStr s \<Rightarrow> t\<lparr>ban_reason := Some s\<rparr> | _ \<Rightarrow> t)"
| "set_column C_banned_at v t = (case v of SqlTs d \<Rightarrow> t\<lparr>banned_at := Some d\<rparr> | _ \<Rightarrow> t)"

text \<open>
  Binding the statement \<^verbatim>\<open>UPDATE tokens SET k1 = $1, ... WHERE id = $n\<close>: every key
  must name a column and every parameter must suit its column, whether or not a row
  matches.
\<close>

fun bind_assignments :: "kwargs \<Rightarrow> exn + (column \<times> sqlval) list" where
  "bind_assignments [] = Inr []"
| "bind_assignments ((key, v) # items) =
     (case column_named key of
        None \<Rightarrow> Inl UndefinedColumnError
      | Some c \<Rightarrow>
          (case encode (column_type c) v of
             None \<Rightarrow> Inl DataError
           | Some x \<Rightarrow>
               (case bind_assignments items of
                  Inl e \<Rightarrow> Inl e
                | Inr as \<Rightarrow> Inr ((c, x) # as))))"

definition assign_all :: "(column \<times> sqlval) list \<Rightarrow> Token \<Rightarrow> Token" where
  "assign_all as t = fold (\<lambda>(c, x). set_column c x) as t"

text \<open>
  Executing it: the matching rows are rewritten, and the statement is refused, leaving
  the table as it was, when the result has two rows with one \<^verbatim>\<open>id\<close> or one \<^verbatim>\<open>st\<close>, or
  a referencing row whose token is gone. (PostgreSQL checks the rows the statement
  wrote; on a table that met its constraints before, that is this check.)
\<close>

definition references :: "database \<Rightarrow> int list" where
  "references db =
     map token_id (token_stats db) @ map token_id_proj (projects db) @
     map token_id_task (tasks db) @
     concat (map (\<lambda>l. case token_id_log l of None \<Rightarrow> [] | Some i \<Rightarrow> [i]) (request_logs db))"

definition execute_update_tokens :: "kwargs \<Rightarrow> int \<Rightarrow> database \<Rightarrow> exn option \<times> database" where
  "execute_update_tokens updates tid db =
     (case bind_assignments updates of
        Inl e \<Rightarrow> (Some e, db)
      | Inr as \<Rightarrow>
          (let rows = map (\<lambda>t. if id_tok t = tid then assign_all as t else t) (tokens db) in
           if \<not> distinct (map id_tok rows) \<or> \<not> distinct (map st rows)
           then (Some UniqueViolationError, db)
           else if \<not> list_all (\<lambda>i. i \<in> set (map id_tok rows)) (references db)
           then (Some ForeignKeyViolationError, db)
           else (None, db\<lparr>tokens := rows\<rparr>)))"

text \<open>
  \<^verbatim>\<open>update_token\<close>: no statement is sent when no assignment is left
  (\<^verbatim>\<open>if updates:\<close>).
\<close>

definition update_token :: "int \<Rightarrow> int \<Rightarrow> kwargs \<Rightarrow> database \<Rightarrow> exn option \<times> database" where
  "update_token tz tid kws db =
     (let updates = update_items tz kws in
      if updates \<noteq> [] then execute_update_tokens updates tid db else (None, db))"

section \<open>The administrative endpoints\<close>

text \<open>
  The endpoints of \<^verbatim>\<open>api/admin.py\<close> call the token manager and the client of the
  upstream service, which are collaborators of this module: each is a parameter below.
  A call that changes the pool takes the state \<open>'s\<close> the collaborator owns and returns
  the new one; a call that can raise returns the exception (of type \<open>'e\<close>) on the left.
  The endpoint itself raises \<^verbatim>\<open>KeyError\<close> or \<^verbatim>\<open>AttributeError\<close> on the data it handles.
  The calls of the debug logger print and record; they take no part in the response
  and are left out.
\<close>

datatype 'e pyexn = External 'e | KeyError string | AttributeError string

text \<open>
  What a handler hands to FastAPI: the value it returns, or an \<^verbatim>\<open>HTTPException\<close> with
  its status code and what its detail is built from.
\<close>

datatype ('a, 'd) response = Returned 'a | HTTPException nat 'd

subsection \<open>\<^verbatim>\<open>PUT /api/tokens/{token_id}\<close>\<close>

record UpdateTokenRequest =
  req_st :: string
  req_project_id :: "string option"
  req_project_name :: "string option"
  req_remark :: "string option"
  req_image_enabled :: "bool option"
  req_video_enabled :: "bool option"
  req_image_concurrency :: "int option"
  req_video_concurrency :: "int option"

text \<open>The keyword arguments of the call of \<^verbatim>\<open>token_manager.update_token\<close>.\<close>

record update_token_call =
  arg_token_id :: int
  arg_st :: string
  arg_at :: pyval
  arg_at_expires :: "datetime option"
  arg_project_id :: "string option"
  arg_project_name :: "string option"
  arg_remark :: "string option"
  arg_image_enabled :: "bool option"
  arg_video_enabled :: "bool option"
  arg_image_concurrency :: "int option"
  arg_video_concurrency :: "int option"

text \<open>\<^verbatim>\<open>expires.replace('Z', '+00:00')\<close>.\<close>

definition replace_Z :: "string \<Rightarrow> string" where
  "replace_Z s = concat (map (\<lambda>c. if c = CHR ''Z'' then ''+00:00'' else [c]) s)"

text \<open>
  The expiry of the access value: \<^verbatim>\<open>None\<close> unless \<^verbatim>\<open>expires\<close> is truthy and parses.
  The bare \<^verbatim>\<open>except\<close> swallows the \<^verbatim>\<open>ValueError\<close> of \<^verbatim>\<open>datetime.fromisoformat\<close>
  (\<open>fromisoformat\<close> returns \<open>None\<close> then) and the error of calling \<^verbatim>\<open>replace\<close> with
  these arguments on a value that is not a string.
\<close>

definition parse_expires :: "(string \<Rightarrow> datetime option) \<Rightarrow> pyval option \<Rightarrow> datetime option" where
  "parse_expires fromisoformat expires =
     (case expires of
        Some (PyStr s) \<Rightarrow> if s \<noteq> [] then fromisoformat (replace_Z s) else None
      | _ \<Rightarrow> None)"

text \<open>
  The handler \<^verbatim>\<open>update_token\<close> of the router (the store has a method of the same name,
  hence the suffix). \<open>st_to_at\<close> is \<^verbatim>\<open>token_manager.flow_client.st_to_at\<close>, whose result
  is a dictionary; \<open>tm_update_token\<close> is \<^verbatim>\<open>token_manager.update_token\<close>. Every exception
  inside the \<^verbatim>\<open>try\<close> becomes an \<^verbatim>\<open>HTTPException\<close> with status 500 and detail
  \<^verbatim>\<open>str(e)\<close>.
\<close>

definition update_token_handler ::
  "(string \<Rightarrow> 'e + (string \<rightharpoonup> pyval)) \<Rightarrow> (string \<Rightarrow> datetime option) \<Rightarrow>
   (update_token_call \<Rightarrow> 's \<Rightarrow> 'e option \<times> 's) \<Rightarrow>
   int \<Rightarrow> UpdateTokenRequest \<Rightarrow> 's \<Rightarrow> (unit, 'e pyexn) response \<times> 's" where
  "update_token_handler st_to_at fromisoformat tm_update_token tid request s =
     (case st_to_at (req_st request) of
        Inl e \<Rightarrow> (HTTPException 500 (External e), s)
      | Inr result \<Rightarrow>
          (case result ''access_token'' of
             None \<Rightarrow> (HTTPException 500 (KeyError ''access_token''), s)
           | Some at_value \<Rightarrow>
               (let expires = result ''expires'';
                    at_exp = parse_expires fromisoformat expires
                in case tm_update_token
                          \<lparr>arg_token_id = tid,
                           arg_st = req_st request,
                           arg_at = at_value,
                           arg_at_expires = at_exp,
                           arg_project_id = req_project_id request,
                           arg_project_name = req_project_name request,
                           arg_remark = req_remark request,
                           arg_image_enabled = req_image_enabled request,
                           arg_video_enabled = req_video_enabled request,
                           arg_image_concurrency = req_image_concurrency request,
                           arg_video_concurrency = req_video_concurrency request\<rparr> s of
                     (Some e, s') \<Rightarrow> (HTTPException 500 (External e), s')
                   | (None, s') \<Rightarrow> (Returned (), s'))))"

subsection \<open>\<^verbatim>\<open>POST /api/tokens/{token_id}/refresh-at\<close>\<close>

text \<open>
  The body of a successful answer: whether the message carries the note on the
  personal mode, and the id, email and expiry of the token read back.
\<close>

record refresh_body =
  personal_note :: bool
  body_id :: int
  body_email :: string
  body_at_expires :: "datetime option"

text \<open>
  The detail of a failure: the fixed text of a refresh that returned false (with the
  hint on the captcha mode unless the mode is personal), or the text of an exception.
\<close>

datatype 'e refresh_detail = Refresh_failed bool | Refresh_raised "'e pyexn"

text \<open>
  \<^verbatim>\<open>refresh_at\<close>. \<open>tm_refresh_at\<close> is \<^verbatim>\<open>token_manager._refresh_at\<close>, \<open>tm_get_token\<close> is
  \<^verbatim>\<open>token_manager.get_token\<close>. The \<^verbatim>\<open>HTTPException\<close> of the \<^verbatim>\<open>else\<close> branch passes the
  first handler unchanged; reading \<^verbatim>\<open>updated_token.id\<close> of \<^verbatim>\<open>None\<close> raises
  \<^verbatim>\<open>AttributeError\<close>, which the second handler turns into a status 500.
\<close>

definition refresh_at ::
  "(int \<Rightarrow> 's \<Rightarrow> ('e + bool) \<times> 's) \<Rightarrow> (int \<Rightarrow> 's \<Rightarrow> 'e + Token option) \<Rightarrow>
   string \<Rightarrow> int \<Rightarrow> 's \<Rightarrow> (refresh_body, 'e refresh_detail) response \<times> 's" where
  "refresh_at tm_refresh_at tm_get_token captcha_method tid s =
     (case tm_refresh_at tid s of
        (Inl e, s1) \<Rightarrow> (HTTPException 500 (Refresh_raised (External e)), s1)
      | (Inr success, s1) \<Rightarrow>
          if success then
            (case tm_get_token tid s1 of
               Inl e \<Rightarrow> (HTTPException 500 (Refresh_raised (External e)), s1)
             | Inr None \<Rightarrow> (HTTPException 500 (Refresh_raised (AttributeError ''id'')), s1)
             | Inr (Some updated_token) \<Rightarrow>
                 (Returned \<lparr>personal_note = (captcha_method = ''personal''),
                            body_id = id_tok updated_token,
                            body_email = email updated_token,
                            body_at_expires = at_expires updated_token\<rparr>, s1))
          else (HTTPException 500 (Refresh_failed (captcha_method \<noteq> ''personal'')), s1))"

section \<open>The periodic task of \<^verbatim>\<open>main.py\<close>\<close>









section \<open>The states the store can reach\<close>

text \<open>\<^verbatim>\<open>init_db\<close> on a fresh database: every table empty, the sequences at 1.\<close>

definition init_db :: database where
  "init_db =
     \<lparr>tokens = [], projects = [], token_stats = [], tasks = [], request_logs = [],
      tokens_id_seq = 1, token_stats_id_seq = 1\<rparr>"

text \<open>
  The store moves by the methods that write \<^verbatim>\<open>tokens\<close>, under any faults and with any
  arguments, and by the other methods (the counters, the projects, the tasks, the
  logs), which leave the rows of \<^verbatim>\<open>tokens\<close> as they are.
\<close>

inductive reachable :: "database \<Rightarrow> bool" where
  start: "reachable init_db"
| added: "reachable db \<Longrightarrow> add_token flt now token db = (r, db') \<Longrightarrow> reachable db'"
| updated: "reachable db \<Longrightarrow> update_token tz tid kws db = (r, db') \<Longrightarrow> reachable db'"
| deleted: "reachable db \<Longrightarrow> delete_token flt tid db = (r, db') \<Longrightarrow> reachable db'"
| other: "reachable db \<Longrightarrow> tokens db' = tokens db \<Longrightarrow> reachable db'"


section \<open>A small pool\<close>

text \<open>
  Three active credentials: \<open>token_N\<close> was never used, \<open>token_A\<close> was last used at
  reading 400 (ten minutes before reading 1000), \<open>token_B\<close> at reading 1000. \<open>token_A\<close>
  has a stats row whose daily counters were last written on day 19.
\<close>

definition token_N :: Token where
  "token_N =
     \<lparr>id_tok = 1, st = ''st-N'', at = Some ''at-N'', at_expires = None,
      email = ''n@example.com'', name = None, remark = None, is_active = True,
      created_at = \<lparr>wall = 0, tzinfo = None\<rparr>, last_used_at = None, use_count = 0,
      credits = 0, user_paygate_tier = None, current_project_id = None,
      current_project_name = None, image_enabled = True, video_enabled = True,
      image_concurrency = -1, video_concurrency = -1, ban_reason = None, banned_at = None\<rparr>"

definition token_A :: Token where
  "token_A =
     token_N\<lparr>id_tok := 2, st := ''st-A'', at := Some ''at-A'', email := ''a@example.com'',
             last_used_at := Some \<lparr>wall = 400, tzinfo = None\<rparr>, use_count := 12\<rparr>"

definition token_B :: Token where
  "token_B =
     token_N\<lparr>id_tok := 3, st := ''st-B'', at := Some ''at-B'', email := ''b@example.com'',
             last_used_at := Some \<lparr>wall = 1000, tzinfo = None\<rparr>, use_count := 13\<rparr>"

definition stats_A :: TokenStats where
  "stats_A =
     \<lparr>id_stats = 2, token_id = 2, image_count = 7, video_count = 4, success_count = 0,
      error_count = 3, last_success_at = None, last_error_at = None,
      today_image_count = 5, today_video_count = 2, today_error_count = 1,
      today_date = Some 19, consecutive_error_count = 2\<rparr>"

definition project_A :: Project where
  "project_A =
     \<lparr>id_proj = 1, project_id = ''p-1'', token_id_proj = 2, project_name = ''first'',
      tool_name = ''PINHOLE'', is_active_proj = True,
      created_at_proj = \<lparr>wall = 0, tzinfo = None\<rparr>\<rparr>"

definition pool :: database where
  "pool =
     \<lparr>tokens = [token_N, token_A, token_B], projects = [project_A],
      token_stats = [stats_A], tasks = [], request_logs = [],
      tokens_id_seq = 4, token_stats_id_seq = 3\<rparr>"


definition stats_fresh :: "int \<Rightarrow> int \<Rightarrow> TokenStats" where
  "stats_fresh i tid =
     \<lparr>id_stats = i, token_id = tid, image_count = 0, video_count = 0, success_count = 0,
      error_count = 0, last_success_at = None, last_error_at = None,
      today_image_count = 0, today_video_count = 0, today_error_count = 0,
      today_date = None, consecutive_error_count = 0\<rparr>"

text \<open>The store after \<open>token_N\<close> has been added to the empty one.\<close>

definition pool_N :: database where
  "pool_N =
     init_db\<lparr>tokens := [token_N], token_stats := [stats_fresh 1 1],
             tokens_id_seq := 2, token_stats_id_seq := 2\<rparr>"

text \<open>
  Stand-ins for the collaborators of the endpoints, over the store: a token manager
  that forwards the fields of an update to \<^verbatim>\<open>update_token\<close> of the store, an exchange
  that fails and one that answers, a parser that knows one date, a refresh that
  returns false and one that writes a new access value, and a reader.
\<close>

definition forward_to_store :: "update_token_call \<Rightarrow> database \<Rightarrow> exn option \<times> database" where
  "forward_to_store call db =
     update_token 0 (arg_token_id call)
       [(''st'', PyStr (arg_st call)),
        (''at'', arg_at call),
        (''at_expires'', case arg_at_expires call of None \<Rightarrow> PyNone | Some d \<Rightarrow> PyDatetime d),
        (''current_project_id'', case arg_project_id call of None \<Rightarrow> PyNone | Some x \<Rightarrow> PyStr x),
        (''current_project_name'', case arg_project_name call of None \<Rightarrow> PyNone | Some x \<Rightarrow> PyStr x),
        (''remark'', case arg_remark call of None \<Rightarrow> PyNone | Some x \<Rightarrow> PyStr x),
        (''image_enabled'', case arg_image_enabled call of None \<Rightarrow> PyNone | Some b \<Rightarrow> PyBool b),
        (''video_enabled'', case arg_video_enabled call of None \<Rightarrow> PyNone | Some b \<Rightarrow> PyBool b),
        (''image_concurrency'', case arg_image_concurrency call of None \<Rightarrow> PyNone | Some n \<Rightarrow> PyInt n),
        (''video_concurrency'', case arg_video_concurrency call of None \<Rightarrow> PyNone | Some n \<Rightarrow> PyInt n)]
       db"

definition exchange_fails :: "string \<Rightarrow> exn + (string \<rightharpoonup> pyval)" where
  "exchange_fails s = Inl InterfaceError"

definition exchange_ok :: "string \<Rightarrow> exn + (string \<rightharpoonup> pyval)" where
  "exchange_ok s =
     Inr (map_of [(''access_token'', PyStr (''at-of-'' @ s)), (''expires'', PyStr ''Z'')])"

definition iso_sample :: "string \<Rightarrow> datetime option" where
  "iso_sample s = (if s = ''+00:00'' then Some \<lparr>wall = 9000, tzinfo = Some 0\<rparr> else None)"

definition request_A :: UpdateTokenRequest where
  "request_A =
     \<lparr>req_st = ''st-A2'', req_project_id = None, req_project_name = None,
      req_remark = Some ''rotated'', req_image_enabled = None, req_video_enabled = None,
      req_image_concurrency = None, req_video_concurrency = None\<rparr>"

definition refresh_returns_false :: "int \<Rightarrow> database \<Rightarrow> (exn + bool) \<times> database" where
  "refresh_returns_false tid db = (Inr False, db)"

definition refresh_writes_at :: "int \<Rightarrow> database \<Rightarrow> (exn + bool) \<times> database" where
  "refresh_writes_at tid db =
     (Inr True,
      snd (update_token 0 tid
             [(''at'', PyStr ''at-new''),
              (''at_expires'', PyDatetime \<lparr>wall = 9000, tzinfo = None\<rparr>)] db))"

definition read_token :: "int \<Rightarrow> database \<Rightarrow> exn + Token option" where
  "read_token tid db = Inr (get_token db tid)"

section \<open>The counters of \<^verbatim>\<open>token_stats\<close>\<close>









section \<open>Deleting a credential\<close>




section \<open>Adding a credential\<close>

lemma insert_token_cases:
  "insert_token now token db = (r, d) \<Longrightarrow>
     token_stats d = token_stats db \<and>
     (if tokens_id_seq db \<in> set (map id_tok (tokens db)) \<or> st token \<in> set (map st (tokens db))
      then r = Inl UniqueViolationError \<and> tokens d = tokens db
      else r = Inr (tokens_id_seq db) \<and>
           (\<exists>row. tokens d = tokens db @ [row] \<and> id_tok row = tokens_id_seq db \<and>
                  st row = st token))"
  by (auto simp: insert_token_def Let_def split: if_splits)


lemma add_token_N:
  "add_token no_faults \<lparr>wall = 0, tzinfo = None\<rparr> token_N init_db = (Inr 1, pool_N)"
  by code_simp




section \<open>The order of \<^verbatim>\<open>get_active_tokens\<close>\<close>

lemma last_used_le_total: "last_used_le a b \<or> last_used_le b a"
  by (cases a; cases b) auto

lemma last_used_le_trans: "last_used_le a b \<Longrightarrow> last_used_le b c \<Longrightarrow> last_used_le a c"
  by (cases a; cases b; cases c) auto

lemma set_insert_by_last_used: "set (insert_by_last_used t ts) = insert t (set ts)"
  by (induction ts) auto

lemma sorted_insert_by_last_used:
  "sorted_wrt (\<lambda>a b. last_used_le (last_used_at a) (last_used_at b)) ts \<Longrightarrow>
   sorted_wrt (\<lambda>a b. last_used_le (last_used_at a) (last_used_at b)) (insert_by_last_used t ts)"
proof (induction ts)
  case Nil
  then show ?case by simp
next
  case (Cons u us)
  show ?case
  proof (cases "last_used_le (last_used_at t) (last_used_at u)")
    case True
    with Cons.prems show ?thesis
      by (auto intro: last_used_le_trans)
  next
    case False
    then have "last_used_le (last_used_at u) (last_used_at t)"
      using last_used_le_total by blast
    with False Cons show ?thesis
      by (auto simp: set_insert_by_last_used)
  qed
qed

text \<open>The result holds exactly the active rows, in the order of \<open>last_used_le\<close>.\<close>

lemma get_active_tokens_set: "set (get_active_tokens db) = {t \<in> set (tokens db). is_active t}"
proof -
  have "set (foldr insert_by_last_used ts []) = set ts" for ts
    by (induction ts) (simp_all add: set_insert_by_last_used)
  then show ?thesis
    by (auto simp: get_active_tokens_def order_by_last_used_at_asc_def)
qed

lemma get_active_tokens_sorted:
  "sorted_wrt (\<lambda>a b. last_used_le (last_used_at a) (last_used_at b)) (get_active_tokens db)"
proof -
  have "sorted_wrt (\<lambda>a b. last_used_le (last_used_at a) (last_used_at b))
          (foldr insert_by_last_used ts [])" for ts
    by (induction ts) (simp_all add: sorted_insert_by_last_used)
  then show ?thesis
    by (simp add: get_active_tokens_def order_by_last_used_at_asc_def)
qed

text \<open>
  C1. Among used credentials the longer idle one comes first: \<open>token_A\<close>, used ten
  minutes ago, is ranked before \<open>token_B\<close>, used just now. The never-used \<open>token_N\<close>,
  which the claim puts first, comes last: the query leaves the place of \<^verbatim>\<open>NULL\<close> to
  PostgreSQL's default for ascending order.
\<close>

theorem get_active_tokens_never_used_last:
  "get_active_tokens pool = [token_A, token_B, token_N]"
  by code_simp

section \<open>The session secret is unique\<close>

lemma insert_token_stats_tokens:
  "insert_token_stats tid db = (r, d) \<Longrightarrow> tokens d = tokens db"
  by (auto simp: insert_token_stats_def Let_def split: if_splits)

lemma add_token_tokens:
  assumes "add_token flt now token db = (r, db')"
  shows "tokens db' = tokens db \<or>
         (st token \<notin> set (map st (tokens db)) \<and>
          (\<exists>row. tokens db' = tokens db @ [row] \<and> st row = st token))"
proof (cases "flt 0")
  case (Some e)
  with assms show ?thesis by (auto simp: add_token_def)
next
  case None
  obtain r1 d1 where i1: "insert_token now token db = (r1, d1)"
    by (cases "insert_token now token db")
  note c1 = insert_token_cases [OF i1]
  show ?thesis
  proof (cases r1)
    case (Inl e)
    with assms None i1 c1 show ?thesis
      by (auto simp: add_token_def split: if_splits)
  next
    case (Inr new_id)
    obtain r2 d2 where i2: "insert_token_stats new_id d1 = (r2, d2)"
      by (cases "insert_token_stats new_id d1")
    from assms None i1 Inr i2 have "tokens db' = tokens d1"
      using insert_token_stats_tokens [OF i2]
      by (auto simp: add_token_def split: option.splits)
    with c1 Inr show ?thesis
      by (auto split: if_splits)
  qed
qed

lemma add_token_duplicate:
  assumes "st token \<in> set (map st (tokens db))"
  shows "\<exists>e db'. add_token flt now token db = (Inl e, db') \<and> tokens db' = tokens db"
  using assms
  by (cases "flt 0") (auto simp: add_token_def insert_token_def Let_def)

lemma update_token_tokens:
  assumes "update_token tz tid kws db = (r, db')"
  shows "tokens db' = tokens db \<or> distinct (map st (tokens db'))"
  using assms
  by (auto simp: update_token_def execute_update_tokens_def Let_def
      split: if_splits sum.splits)

lemma delete_token_tokens:
  assumes "delete_token flt tid db = (r, db')"
  shows "tokens db' = tokens db \<or> tokens db' = filter (\<lambda>t. id_tok t \<noteq> tid) (tokens db)"
  using assms
  by (auto simp: delete_token_def Let_def split: option.splits if_splits)

lemma reachable_distinct_st: "reachable db \<Longrightarrow> distinct (map st (tokens db))"
proof (induction rule: reachable.induct)
  case start
  show ?case by (simp add: init_db_def)
next
  case (added db flt now token r db')
  from add_token_tokens [OF added.hyps(2)] added.IH show ?case
    by auto
next
  case (updated db tz tid kws r db')
  from update_token_tokens [OF updated.hyps(2)] updated.IH show ?case
    by auto
next
  case (deleted db flt tid r db')
  from delete_token_tokens [OF deleted.hyps(2)] deleted.IH show ?case
    by (auto simp: distinct_map_filter)
next
  case (other db db')
  then show ?case by simp
qed

lemma reachable_pool_N: "reachable pool_N"
  by (rule reachable.added [OF reachable.start add_token_N])

text \<open>
  C8. In every state the store can reach, no two rows of \<^verbatim>\<open>tokens\<close> have the same
  \<^verbatim>\<open>st\<close>; and \<^verbatim>\<open>add_token\<close> with a session secret that a row already holds raises and
  leaves the rows of \<^verbatim>\<open>tokens\<close> as they were.
\<close>

theorem session_secret_unique:
  assumes "reachable db"
  shows "distinct (map st (tokens db))
       \<and> (\<forall>flt now token. st token \<in> set (map st (tokens db)) \<longrightarrow>
            (\<exists>e db'. add_token flt now token db = (Inl e, db') \<and> tokens db' = tokens db))"
  using reachable_distinct_st [OF assms] add_token_duplicate by blast

text \<open>Adding \<open>token_N\<close> a second time is refused.\<close>

theorem session_secret_unique_witness:
  "reachable pool_N
   \<and> distinct (map st (tokens pool_N))
   \<and> (\<exists>e db'. add_token no_faults \<lparr>wall = 5, tzinfo = None\<rparr> token_N pool_N = (Inl e, db')
         \<and> tokens db' = tokens pool_N)"
proof -
  have m: "st token_N \<in> set (map st (tokens pool_N))"
    by (simp add: pool_N_def)
  from session_secret_unique [OF reachable_pool_N] m reachable_pool_N show ?thesis
    by blast
qed

section \<open>The partial update\<close>














section \<open>Updating a credential through the router\<close>

lemma update_items_st_at:
  "update_items tz [(''st'', PyStr s), (''at'', PyStr a)] = [(''st'', PyStr s), (''at'', PyStr a)]"
  by (simp add: timestamp_to_datetime_def normalize_value_def)

lemma column_named_st: "column_named ''st'' = Some C_st"
  by (simp add: column_named_def tokens_columns_def)

lemma column_named_at: "column_named ''at'' = Some C_at"
  by (simp add: column_named_def tokens_columns_def)

lemma bind_st_at:
  "bind_assignments [(''st'', PyStr s), (''at'', PyStr a)] = Inr [(C_st, SqlStr s), (C_at, SqlStr a)]"
  by (simp add: column_named_st column_named_at)

lemma assign_st_at:
  "assign_all [(C_st, SqlStr s), (C_at, SqlStr a)] t = t\<lparr>st := s, at := Some a\<rparr>"
  by (simp add: assign_all_def)

lemma rows_st_at:
  assumes "t' \<in> set (map (\<lambda>t. if id_tok t = tid
                               then assign_all [(C_st, SqlStr s), (C_at, SqlStr a)] t else t) ts)"
    and "id_tok t' = tid"
  shows "st t' = s \<and> at t' = Some a"
proof -
  from assms(1) obtain t where
    t: "t' = (if id_tok t = tid then assign_all [(C_st, SqlStr s), (C_at, SqlStr a)] t else t)"
    by (auto simp only: set_map)
  show ?thesis
  proof (cases "id_tok t = tid")
    case True
    with t show ?thesis by (simp add: assign_st_at)
  next
    case False
    with t assms(2) show ?thesis by simp
  qed
qed

text \<open>
  The statement of the store that writes a session secret and its access value writes
  both into the rows with that id, or raises and writes nothing.
\<close>

lemma update_token_st_at:
  assumes "update_token tz tid [(''st'', PyStr s), (''at'', PyStr a)] db = (r, db')"
  shows "(r = None \<and> (\<forall>t \<in> set (tokens db'). id_tok t = tid \<longrightarrow> st t = s \<and> at t = Some a))
       \<or> (r \<noteq> None \<and> db' = db)"
proof -
  let ?rows = "map (\<lambda>t. if id_tok t = tid
                         then assign_all [(C_st, SqlStr s), (C_at, SqlStr a)] t else t) (tokens db)"
  from assms have "(r = None \<and> tokens db' = ?rows) \<or> (r \<noteq> None \<and> db' = db)"
    unfolding update_token_def update_items_st_at Let_def execute_update_tokens_def bind_st_at
    by (simp split: if_splits) auto
  then show ?thesis
  proof
    assume w: "r = None \<and> tokens db' = ?rows"
    have "\<forall>t \<in> set (tokens db'). id_tok t = tid \<longrightarrow> st t = s \<and> at t = Some a"
    proof (intro ballI impI)
      fix t assume "t \<in> set (tokens db')" and i: "id_tok t = tid"
      with w have "t \<in> set ?rows" by (simp only:)
      then show "st t = s \<and> at t = Some a" using i by (rule rows_st_at)
    qed
    with w show ?thesis by (simp only: simp_thms)
  next
    assume "r \<noteq> None \<and> db' = db"
    then show ?thesis by (simp only: simp_thms)
  qed
qed

lemma handler_exchange_fails:
  "update_token_handler exchange_fails iso_sample forward_to_store 2 request_A pool
     = (HTTPException 500 (External InterfaceError), pool)"
  by code_simp

lemma handler_exchange_ok:
  "update_token_handler exchange_ok iso_sample forward_to_store 2 request_A pool
     = (Returned (),
        pool\<lparr>tokens :=
               [token_N,
                token_A\<lparr>st := ''st-A2'', at := Some ''at-of-st-A2'',
                        at_expires := Some \<lparr>wall = 9000, tzinfo = None\<rparr>,
                        remark := Some ''rotated''\<rparr>,
                token_B]\<rparr>)"
  by code_simp

text \<open>
  C6. The handler exchanges the session secret of the request before it touches the
  pool. When the exchange raises, the answer is an \<^verbatim>\<open>HTTPException\<close> with status 500 and
  the state of the pool is the one before the call: the token manager is not called, so
  neither the secret nor the access value is written. The same holds when the answer
  of the exchange has no access value. Otherwise the token manager is called once, with
  the secret of the request together with the access value and the expiry derived from
  it, and the handler answers success exactly when that call returns. The statement of
  the store that writes the two writes both or, when it is refused, neither.
\<close>

theorem update_token_handler_exchange_first:
  "(\<forall>e. st_to_at (req_st request) = Inl e \<longrightarrow>
        update_token_handler st_to_at fromiso tm tid request s = (HTTPException 500 (External e), s))
   \<and> (\<forall>result. st_to_at (req_st request) = Inr result \<and> result ''access_token'' = None \<longrightarrow>
        update_token_handler st_to_at fromiso tm tid request s
          = (HTTPException 500 (KeyError ''access_token''), s))
   \<and> (\<forall>result a. st_to_at (req_st request) = Inr result \<and> result ''access_token'' = Some a \<longrightarrow>
        (\<exists>call. arg_token_id call = tid \<and> arg_st call = req_st request \<and> arg_at call = a \<and>
           arg_at_expires call = parse_expires fromiso (result ''expires'') \<and>
           snd (update_token_handler st_to_at fromiso tm tid request s) = snd (tm call s) \<and>
           (fst (update_token_handler st_to_at fromiso tm tid request s) = Returned ()
              \<longleftrightarrow> fst (tm call s) = None)))
   \<and> (\<forall>tz a db r db'.
        update_token tz tid [(''st'', PyStr (req_st request)), (''at'', PyStr a)] db = (r, db') \<longrightarrow>
        (r = None \<and> (\<forall>t \<in> set (tokens db'). id_tok t = tid \<longrightarrow>
                        st t = req_st request \<and> at t = Some a))
        \<or> (r \<noteq> None \<and> db' = db))"
proof (intro conjI allI impI)
  fix tz a db r db'
  assume "update_token tz tid [(''st'', PyStr (req_st request)), (''at'', PyStr a)] db = (r, db')"
  then show "(r = None \<and> (\<forall>t \<in> set (tokens db'). id_tok t = tid \<longrightarrow>
                        st t = req_st request \<and> at t = Some a))
        \<or> (r \<noteq> None \<and> db' = db)"
    by (rule update_token_st_at)
next
  fix e assume "st_to_at (req_st request) = Inl e"
  then show "update_token_handler st_to_at fromiso tm tid request s
               = (HTTPException 500 (External e), s)"
    by (simp add: update_token_handler_def)
next
  fix result assume "st_to_at (req_st request) = Inr result \<and> result ''access_token'' = None"
  then show "update_token_handler st_to_at fromiso tm tid request s
               = (HTTPException 500 (KeyError ''access_token''), s)"
    by (simp add: update_token_handler_def)
next
  fix result a
  assume ok: "st_to_at (req_st request) = Inr result \<and> result ''access_token'' = Some a"
  let ?call = "\<lparr>arg_token_id = tid, arg_st = req_st request, arg_at = a,
                 arg_at_expires = parse_expires fromiso (result ''expires''),
                 arg_project_id = req_project_id request,
                 arg_project_name = req_project_name request,
                 arg_remark = req_remark request,
                 arg_image_enabled = req_image_enabled request,
                 arg_video_enabled = req_video_enabled request,
                 arg_image_concurrency = req_image_concurrency request,
                 arg_video_concurrency = req_video_concurrency request\<rparr>"
  obtain r s' where tm: "tm ?call s = (r, s')"
    by (cases "tm ?call s")
  with ok have "snd (update_token_handler st_to_at fromiso tm tid request s) = snd (tm ?call s)
      \<and> (fst (update_token_handler st_to_at fromiso tm tid request s) = Returned ()
           \<longleftrightarrow> fst (tm ?call s) = None)"
    by (cases r) (simp_all add: update_token_handler_def Let_def)
  then show "\<exists>call. arg_token_id call = tid \<and> arg_st call = req_st request \<and> arg_at call = a \<and>
           arg_at_expires call = parse_expires fromiso (result ''expires'') \<and>
           snd (update_token_handler st_to_at fromiso tm tid request s) = snd (tm call s) \<and>
           (fst (update_token_handler st_to_at fromiso tm tid request s) = Returned ()
              \<longleftrightarrow> fst (tm call s) = None)"
    by (intro exI [of _ ?call]) (simp only: update_token_call.simps simp_thms)
qed

text \<open>
  Over the small pool, with a token manager that forwards to the store: a failing
  exchange leaves the pool as it was, a successful one rewrites the secret, the access
  value and its expiry of \<open>token_A\<close> together.
\<close>

theorem update_token_handler_exchange_first_witness:
  "exchange_fails (req_st request_A) = Inl InterfaceError
   \<and> update_token_handler exchange_fails iso_sample forward_to_store 2 request_A pool
       = (HTTPException 500 (External InterfaceError), pool)
   \<and> update_token_handler exchange_ok iso_sample forward_to_store 2 request_A pool
       = (Returned (),
          pool\<lparr>tokens :=
                 [token_N,
                  token_A\<lparr>st := ''st-A2'', at := Some ''at-of-st-A2'',
                          at_expires := Some \<lparr>wall = 9000, tzinfo = None\<rparr>,
                          remark := Some ''rotated''\<rparr>,
                  token_B]\<rparr>)"
proof -
  have h: "exchange_fails (req_st request_A) = Inl InterfaceError"
    by (simp add: exchange_fails_def)
  from update_token_handler_exchange_first
         [of exchange_fails request_A iso_sample forward_to_store 2 pool]
  have "\<forall>e. exchange_fails (req_st request_A) = Inl e \<longrightarrow>
          update_token_handler exchange_fails iso_sample forward_to_store 2 request_A pool
            = (HTTPException 500 (External e), pool)"
    by (rule conjunct1)
  with h have "update_token_handler exchange_fails iso_sample forward_to_store 2 request_A pool
       = (HTTPException 500 (External InterfaceError), pool)"
    by blast
  with h handler_exchange_ok show ?thesis
    by (simp only: simp_thms)
qed

section \<open>Refreshing the access value by hand\<close>

lemma refresh_pool_false:
  "refresh_at refresh_returns_false read_token ''browser'' 2 pool
     = (HTTPException 500 (Refresh_failed True), pool)"
  by code_simp

lemma refresh_pool_true:
  "refresh_at refresh_writes_at read_token ''personal'' 2 pool
     = (Returned \<lparr>personal_note = True, body_id = 2, body_email = ''a@example.com'',
                  body_at_expires = Some \<lparr>wall = 9000, tzinfo = None\<rparr>\<rparr>,
        pool\<lparr>tokens :=
               [token_N,
                token_A\<lparr>at := Some ''at-new'',
                        at_expires := Some \<lparr>wall = 9000, tzinfo = None\<rparr>\<rparr>,
                token_B]\<rparr>)"
  by code_simp

text \<open>
  C7. When the refresh raises, and when it returns false, the endpoint raises an
  \<^verbatim>\<open>HTTPException\<close> with status 500. When the endpoint returns a body, the refresh
  returned true, and the body carries the id, the email and the expiry of the token as
  read back after the refresh.
\<close>

theorem refresh_at_reports_failure:
  "(\<forall>e s1. tm_refresh_at tid s = (Inl e, s1) \<longrightarrow>
        refresh_at tm_refresh_at tm_get_token mode tid s
          = (HTTPException 500 (Refresh_raised (External e)), s1))
   \<and> (\<forall>s1. tm_refresh_at tid s = (Inr False, s1) \<longrightarrow>
        refresh_at tm_refresh_at tm_get_token mode tid s
          = (HTTPException 500 (Refresh_failed (mode \<noteq> ''personal'')), s1))
   \<and> (\<forall>body s1. refresh_at tm_refresh_at tm_get_token mode tid s = (Returned body, s1) \<longrightarrow>
        tm_refresh_at tid s = (Inr True, s1) \<and>
        (\<exists>t. tm_get_token tid s1 = Inr (Some t) \<and> body_id body = id_tok t \<and>
             body_email body = email t \<and> body_at_expires body = at_expires t))"
  by (auto simp: refresh_at_def split: sum.splits option.splits prod.splits if_splits)

text \<open>
  A refresh that returns false gives status 500; one that writes a new access value
  gives the body with the new expiry.
\<close>

theorem refresh_at_reports_failure_witness:
  "refresh_returns_false 2 pool = (Inr False, pool)
   \<and> refresh_at refresh_returns_false read_token ''browser'' 2 pool
       = (HTTPException 500 (Refresh_failed (''browser'' \<noteq> ''personal'')), pool)
   \<and> fst (refresh_at refresh_writes_at read_token ''personal'' 2 pool)
       = Returned \<lparr>personal_note = True, body_id = 2, body_email = ''a@example.com'',
                    body_at_expires = Some \<lparr>wall = 9000, tzinfo = None\<rparr>\<rparr>"
proof -
  have h: "refresh_returns_false 2 pool = (Inr False, pool)"
    by (simp add: refresh_returns_false_def)
  from refresh_at_reports_failure [of refresh_returns_false 2 pool read_token "''browser''"]
  have "\<forall>s1. refresh_returns_false 2 pool = (Inr False, s1) \<longrightarrow>
          refresh_at refresh_returns_false read_token ''browser'' 2 pool
            = (HTTPException 500 (Refresh_failed (''browser'' \<noteq> ''personal'')), s1)"
    by (elim conjE)
  with h have "refresh_at refresh_returns_false read_token ''browser'' 2 pool
       = (HTTPException 500 (Refresh_failed (''browser'' \<noteq> ''personal'')), pool)"
    by blast
  with h refresh_pool_true show ?thesis
    by (simp only: simp_thms fst_conv)
qed

section \<open>The hourly task\<close>








end
